theory Spec2Isabelle
  imports Main "HOL-Library.Char_ord" "HOL-Library.Sublist"
begin

section \<open>Regular expressions as the lexer uses them\<close>

text \<open>
  The lexer of \<^verbatim>\<open>Index.tsx\<close> is written with JavaScript regular expressions
  (\<^verbatim>\<open>tokenRegex\<close>, and the literals inside \<^verbatim>\<open>tokenize\<close>). They are embedded as values
  of the datatype \<open>regex\<close> and run by a backtracking matcher, so that each pattern of
  the source is a term that can be compared with it.

  Source characters are \<open>char\<close>: a UTF-16 code unit below 256. No flag
  (\<^verbatim>\<open>i\<close>, \<^verbatim>\<open>m\<close>, \<^verbatim>\<open>s\<close>, \<^verbatim>\<open>u\<close>) is used in the source except \<^verbatim>\<open>g\<close> on the
  block-comment pattern.
\<close>

datatype regex =
    Sym "char \<Rightarrow> bool"
  | Empty
  | Bol
  | WordB
  | Cat regex regex
  | Alt regex regex
  | Star regex
  | Lazy regex

definition inRange :: "char \<Rightarrow> char \<Rightarrow> char \<Rightarrow> bool" where
  "inRange lo hi c = (lo \<le> c \<and> c \<le> hi)"

definition isDigit :: "char \<Rightarrow> bool" where
  "isDigit c = inRange CHR ''0'' CHR ''9'' c"

definition isWordChar :: "char \<Rightarrow> bool" where
  "isWordChar c = (inRange CHR ''a'' CHR ''z'' c \<or> inRange CHR ''A'' CHR ''Z'' c
                   \<or> isDigit c \<or> c = CHR ''_'')"

text \<open>\<^verbatim>\<open>\s\<close>: tab, line feed, vertical tab, form feed, carriage return, space and the
  no-break space; the other members of the class lie above 255.\<close>

definition isSpace :: "char \<Rightarrow> bool" where
  "isSpace c = (c = CHR 0x09 \<or> c = CHR 0x0A \<or> c = CHR 0x0B \<or> c = CHR 0x0C
                \<or> c = CHR 0x0D \<or> c = CHR 0x20 \<or> c = CHR 0xA0)"

text \<open>\<^verbatim>\<open>.\<close> matches everything but a line terminator.\<close>

definition isDot :: "char \<Rightarrow> bool" where
  "isDot c = (c \<noteq> CHR 0x0A \<and> c \<noteq> CHR 0x0D)"

definition dquote :: char where
  "dquote = CHR 0x22"

definition backslash :: char where
  "backslash = CHR 0x5C"

definition chr :: "char \<Rightarrow> regex" where
  "chr c = Sym (\<lambda>x. x = c)"

definition cls :: "string \<Rightarrow> regex" where
  "cls s = Sym (\<lambda>x. x \<in> set s)"

definition ncls :: "string \<Rightarrow> regex" where
  "ncls s = Sym (\<lambda>x. x \<notin> set s)"

fun seq :: "regex list \<Rightarrow> regex" where
  "seq [] = Empty"
| "seq (r # rs) = Cat r (seq rs)"

definition str :: "string \<Rightarrow> regex" where
  "str s = seq (map chr s)"

fun alts :: "regex list \<Rightarrow> regex" where
  "alts [] = Sym (\<lambda>x. False)"
| "alts [r] = r"
| "alts (r # rs) = Alt r (alts rs)"

definition Plus :: "regex \<Rightarrow> regex" where
  "Plus r = Cat r (Star r)"

definition Opt :: "regex \<Rightarrow> regex" where
  "Opt r = Alt r Empty"

text \<open>
  A position of the matcher is the character before it (\<open>None\<close> at index 0) and the
  text after it. \<open>ends r p\<close> lists the positions at which a match of \<open>r\<close> begun at
  \<open>p\<close> can end, in the order in which backtracking tries them: the first alternative
  first, a greedy star with more iterations first, a lazy star with fewer first. An
  iteration of a star that consumes nothing is abandoned, as in ECMAScript.
\<close>

type_synonym pos = "char option \<times> string"

definition wordBefore :: "char option \<Rightarrow> bool" where
  "wordBefore b = (case b of None \<Rightarrow> False | Some c \<Rightarrow> isWordChar c)"

definition wordAfter :: "string \<Rightarrow> bool" where
  "wordAfter s = (case s of [] \<Rightarrow> False | c # _ \<Rightarrow> isWordChar c)"

function ends :: "regex \<Rightarrow> pos \<Rightarrow> pos list" where
  "ends (Sym P) p = (case snd p of [] \<Rightarrow> [] | c # cs \<Rightarrow> if P c then [(Some c, cs)] else [])"
| "ends Empty p = [p]"
| "ends Bol p = (if fst p = None then [p] else [])"
| "ends WordB p = (if wordBefore (fst p) \<noteq> wordAfter (snd p) then [p] else [])"
| "ends (Cat r1 r2) p = concat (map (ends r2) (ends r1 p))"
| "ends (Alt r1 r2) p = ends r1 p @ ends r2 p"
| "ends (Star r) p =
     concat (map (\<lambda>q. if length (snd q) < length (snd p) then ends (Star r) q else [])
                 (ends r p)) @ [p]"
| "ends (Lazy r) p =
     p # concat (map (\<lambda>q. if length (snd q) < length (snd p) then ends (Lazy r) q else [])
                     (ends r p))"
  by pat_completeness auto
termination
  by (relation "measures [\<lambda>(r, p). size r, \<lambda>(r, p). length (snd p)]") auto

declare ends.simps [simp del]

text \<open>\<^verbatim>\<open>RegExp.prototype.exec\<close> without \<^verbatim>\<open>g\<close>: the leftmost start position at which the
  pattern matches, and there the first match in backtracking order. The result is the
  matched text, \<^verbatim>\<open>match[0]\<close>.\<close>

fun execFrom :: "regex \<Rightarrow> char option \<Rightarrow> string \<Rightarrow> string option" where
  "execFrom r b [] = (case ends r (b, []) of [] \<Rightarrow> None | q # _ \<Rightarrow> Some [])"
| "execFrom r b (c # cs) =
     (case ends r (b, c # cs) of
        [] \<Rightarrow> execFrom r (Some c) cs
      | q # _ \<Rightarrow> Some (take (length (c # cs) - length (snd q)) (c # cs)))"

definition match :: "regex \<Rightarrow> string \<Rightarrow> string option" where
  "match r s = execFrom r None s"

definition test :: "regex \<Rightarrow> string \<Rightarrow> bool" where
  "test r s = (match r s \<noteq> None)"

text \<open>\<^verbatim>\<open>String.prototype.replace\<close> with a \<^verbatim>\<open>g\<close> pattern and a callback: the matches are
  found left to right without overlap, the callback is run on each in that order, and
  its result takes the place of the match. The callback of \<^verbatim>\<open>tokenize\<close> pushes onto
  \<^verbatim>\<open>tokens\<close>, so the callback takes and returns a state.\<close>

function replaceG :: "regex \<Rightarrow> (string \<Rightarrow> 'st \<Rightarrow> string \<times> 'st) \<Rightarrow> char option \<Rightarrow> string \<Rightarrow> 'st
    \<Rightarrow> string \<times> 'st" where
  "replaceG r f b s st =
     (case ends r (b, s) of
        [] \<Rightarrow> (case s of
                 [] \<Rightarrow> ([], st)
               | c # cs \<Rightarrow> (let (out, st') = replaceG r f (Some c) cs st in (c # out, st')))
      | q # _ \<Rightarrow>
          (let m = take (length s - length (snd q)) s;
               (rep, st1) = f m st
           in if m = [] then
                (case s of
                   [] \<Rightarrow> (rep, st1)
                 | c # cs \<Rightarrow> (let (out, st2) = replaceG r f (Some c) cs st1
                              in (rep @ c # out, st2)))
              else
                (let (out, st2) = replaceG r f (Some (last m)) (drop (length m) s) st1
                 in (rep @ out, st2))))"
  by pat_completeness auto
termination
  by (relation "measure (\<lambda>(r, f, b, s, st). length s)") auto

declare replaceG.simps [simp del]

subsection \<open>What a match consumes\<close>

text \<open>A match ends inside the text it began in: every end position is a suffix of the
  start position. The scanner advances by the length of a match, so its termination rests
  on this.\<close>

lemma ends_Sym_suffix: "q \<in> set (ends (Sym P) p) \<Longrightarrow> suffix (snd q) (snd p)"
  by (cases "snd p") (auto split: if_splits simp: suffix_def ends.simps(1))

lemma in_star_body:
  "q \<in> set (concat (map (\<lambda>x. if length (snd x) < n then f x else []) xs))
   \<Longrightarrow> \<exists>x \<in> set xs. length (snd x) < n \<and> q \<in> set (f x)"
  by (induction xs) (auto split: if_splits)

lemma ends_suffix: "q \<in> set (ends r p) \<Longrightarrow> suffix (snd q) (snd p)"
proof (induction r p arbitrary: q rule: ends.induct)
  case (1 P p)
  then show ?case by (rule ends_Sym_suffix)
next
  case (2 p) then show ?case by (simp add: ends.simps(2))
next
  case (3 p) then show ?case by (simp add: ends.simps(3) split: if_splits)
next
  case (4 p) then show ?case by (simp add: ends.simps(4) split: if_splits)
next
  case (5 r1 r2 p)
  from 5(3) obtain x where x: "x \<in> set (ends r1 p)" and q: "q \<in> set (ends r2 x)"
    by (auto simp: ends.simps(5))
  from 5(1)[OF x] 5(2)[OF x q] show ?case
    by (rule suffix_order.trans[rotated])
next
  case (6 r1 r2 p)
  from 6(3) have "q \<in> set (ends r1 p) \<or> q \<in> set (ends r2 p)" by (simp add: ends.simps(6))
  then show ?case using 6(1) 6(2) by blast
next
  case (7 r p)
  let ?body = "concat (map (\<lambda>x. if length (snd x) < length (snd p) then ends (Star r) x else [])
                           (ends r p))"
  have eq: "ends (Star r) p = ?body @ [p]" by (rule ends.simps)
  show ?case
  proof (cases "q = p")
    case True then show ?thesis by simp
  next
    case False
    with 7(3) have "q \<in> set ?body"
      unfolding eq by simp
    from in_star_body[OF this]
    obtain x where x: "x \<in> set (ends r p)" and l: "length (snd x) < length (snd p)"
      and q: "q \<in> set (ends (Star r) x)"
      by blast
    from 7(1)[OF x] 7(2)[OF x l q] show ?thesis
      by (rule suffix_order.trans[rotated])
  qed
next
  case (8 r p)
  let ?body = "concat (map (\<lambda>x. if length (snd x) < length (snd p) then ends (Lazy r) x else [])
                           (ends r p))"
  have eq: "ends (Lazy r) p = p # ?body" by (rule ends.simps)
  show ?case
  proof (cases "q = p")
    case True then show ?thesis by simp
  next
    case False
    with 8(3) have "q \<in> set ?body"
      unfolding eq by simp
    from in_star_body[OF this]
    obtain x where x: "x \<in> set (ends r p)" and l: "length (snd x) < length (snd p)"
      and q: "q \<in> set (ends (Lazy r) x)"
      by blast
    from 8(1)[OF x] 8(2)[OF x l q] show ?thesis
      by (rule suffix_order.trans[rotated])
  qed
qed

lemma ends_length: "q \<in> set (ends r p) \<Longrightarrow> length (snd q) \<le> length (snd p)"
  by (drule ends_suffix) (rule suffix_length_le)

text \<open>A pattern that starts with \<^verbatim>\<open>^\<close> matches at index 0 or nowhere.\<close>

lemma ends_Bol_Some: "ends (Cat Bol r) (Some b, s) = []"
  by (simp add: ends.simps)

lemma ends_Bol_None: "ends (Cat Bol r) (None, s) = ends r (None, s)"
  by (simp add: ends.simps)

lemma execFrom_Bol_Some: "execFrom (Cat Bol r) (Some b) s = None"
  by (induction s arbitrary: b) (simp_all add: ends_Bol_Some)

lemma match_Bol:
  "match (Cat Bol r) s =
     (case ends r (None, s) of [] \<Rightarrow> None | q # _ \<Rightarrow> Some (take (length s - length (snd q)) s))"
  by (cases s) (simp_all add: match_def ends_Bol_None execFrom_Bol_Some split: list.splits)

lemma test_Bol: "test (Cat Bol r) s = (ends r (None, s) \<noteq> [])"
  by (simp add: test_def match_Bol split: list.splits)

text \<open>A pattern that starts with \<^verbatim>\<open>^\<close> and then a character matches a non-empty
  prefix of the text.\<close>

lemma match_Bol_Sym:
  assumes "match (Cat Bol (Cat (Sym P) r)) s = Some m"
  shows "m \<noteq> [] \<and> length m \<le> length s \<and> m = take (length m) s"
proof -
  from assms obtain q qs where q: "ends (Cat (Sym P) r) (None, s) = q # qs"
    and m: "m = take (length s - length (snd q)) s"
    by (auto simp: match_Bol split: list.splits)
  from q have "q \<in> set (ends (Cat (Sym P) r) (None, s))" by simp
  then obtain x where x: "x \<in> set (ends (Sym P) (None, s))" and qx: "q \<in> set (ends r x)"
    by (auto simp: ends.simps(5))
  from x obtain c cs where s: "s = c # cs" and xs: "x = (Some c, cs)"
    by (cases s) (auto simp: ends.simps(1) split: if_splits)
  from ends_length[OF qx] xs have "length (snd q) \<le> length cs" by simp
  with s m show ?thesis by (auto simp: min_def)
qed

section \<open>Tokens\<close>

datatype TokenType =
    PREPROCESSOR | KEYWORD | IDENTIFIER | NUMBER | STRING_LITERAL | OPERATOR | SEPARATOR
  | OPEN_PAREN | CLOSE_PAREN | OPEN_BRACE | CLOSE_BRACE | COMMENT | UNDEFINED

datatype token = Token (ttype: TokenType) (tvalue: string)

text \<open>The patterns of \<^verbatim>\<open>tokenRegex\<close>, one definition for each key.\<close>

definition rxPREPROCESSOR :: regex where
  "rxPREPROCESSOR =
     seq [Bol, chr CHR ''#'', Star (Sym isSpace), Plus (Sym isWordChar), Star (Sym isSpace),
          Alt (seq [chr CHR ''<'', Plus (ncls ''>''), chr CHR ''>''])
              (seq [chr dquote, Plus (ncls [dquote]), chr dquote])]"

definition reservedWords :: "string list" where
  "reservedWords = [''int'', ''char'', ''float'', ''double'', ''if'', ''else'', ''for'', ''while'',
               ''return'', ''void'', ''include'', ''define'']"

definition rxKEYWORD :: regex where
  "rxKEYWORD = seq [WordB, alts (map str reservedWords), WordB]"

definition rxIDENTIFIER :: regex where
  "rxIDENTIFIER =
     seq [WordB,
          Sym (\<lambda>c. inRange CHR ''a'' CHR ''z'' c \<or> inRange CHR ''A'' CHR ''Z'' c \<or> c = CHR ''_''),
          Star (Sym isWordChar), WordB]"

definition isHex :: "char \<Rightarrow> bool" where
  "isHex c = (isDigit c \<or> inRange CHR ''A'' CHR ''F'' c \<or> inRange CHR ''a'' CHR ''f'' c)"

definition rxNUMBER :: regex where
  "rxNUMBER =
     seq [WordB,
          Alt (seq [str ''0x'', Plus (Sym isHex)])
              (seq [Plus (Sym isDigit),
                    Opt (seq [chr CHR ''.'', Plus (Sym isDigit)]),
                    Opt (seq [cls ''eE'', Opt (cls ''-+''), Plus (Sym isDigit)])]),
          WordB]"

definition rxSTRING_LITERAL :: regex where
  "rxSTRING_LITERAL =
     seq [Bol, chr dquote,
          Star (Alt (ncls [dquote, backslash]) (seq [chr backslash, Sym isDot])),
          chr dquote]"

definition rxOPERATOR :: regex where
  "rxOPERATOR =
     seq [Bol,
          alts [str ''=='', str ''!='', str ''<='', str ''>='', str ''++'', str ''--'',
                str ''->'', str ''&&'', str ''||'', cls ''-+*/%=<>&^|!~'']]"

definition rxSEPARATOR :: regex where
  "rxSEPARATOR = seq [Bol, cls '';,.:'']"

definition rxOPEN_PAREN :: regex where
  "rxOPEN_PAREN = seq [Bol, cls ''('']"

definition rxCLOSE_PAREN :: regex where
  "rxCLOSE_PAREN = seq [Bol, cls '')'']"

definition rxOPEN_BRACE :: regex where
  "rxOPEN_BRACE = seq [Bol, cls ''{'']"

definition rxCLOSE_BRACE :: regex where
  "rxCLOSE_BRACE = seq [Bol, cls ''}'']"

definition rxBlockComment :: regex where
  "rxBlockComment = seq [str ''/*'', Lazy (Sym (\<lambda>c. True)), str ''*/'']"

definition rxCOMMENT :: regex where
  "rxCOMMENT = Alt (seq [Bol, str ''//'', Star (Sym isDot)]) (seq [Bol, rxBlockComment])"

text \<open>\<^verbatim>\<open>Object.entries(tokenRegex)\<close>: the keys are strings, none of them an array index,
  so the entries come in the order in which the object literal lists them.\<close>

definition tokenRegex :: "(TokenType \<times> regex) list" where
  "tokenRegex =
     [(PREPROCESSOR, rxPREPROCESSOR), (KEYWORD, rxKEYWORD), (IDENTIFIER, rxIDENTIFIER),
      (NUMBER, rxNUMBER), (STRING_LITERAL, rxSTRING_LITERAL), (OPERATOR, rxOPERATOR),
      (SEPARATOR, rxSEPARATOR), (OPEN_PAREN, rxOPEN_PAREN), (CLOSE_PAREN, rxCLOSE_PAREN),
      (OPEN_BRACE, rxOPEN_BRACE), (CLOSE_BRACE, rxCLOSE_BRACE), (COMMENT, rxCOMMENT)]"

section \<open>The lexer\<close>

fun classifyLoop :: "(TokenType \<times> regex) list \<Rightarrow> string \<Rightarrow> token" where
  "classifyLoop [] lexeme = Token UNDEFINED lexeme"
| "classifyLoop ((type, regex) # entries) lexeme =
     (if test regex lexeme then Token type lexeme else classifyLoop entries lexeme)"

definition classifyLexeme :: "string \<Rightarrow> token" where
  "classifyLexeme lexeme = classifyLoop tokenRegex lexeme"

text \<open>The three patterns written inside \<^verbatim>\<open>tokenize\<close>: \<^verbatim>\<open>/\s/\<close>, \<^verbatim>\<open>/[a-zA-Z0-9_]/\<close>
  and \<^verbatim>\<open>/^\s*#/\<close>.\<close>

definition rxSpace :: regex where
  "rxSpace = Sym isSpace"

definition rxWordChar :: regex where
  "rxWordChar = Sym isWordChar"

definition rxHashLine :: regex where
  "rxHashLine = seq [Bol, Star (Sym isSpace), chr CHR ''#'']"

text \<open>\<^verbatim>\<open>inputCode.split('\n')\<close>; the first argument is the line being collected.\<close>

fun splitLines :: "string \<Rightarrow> string \<Rightarrow> string list" where
  "splitLines line [] = [line]"
| "splitLines line (c # cs) =
     (if c = CHR 0x0A then line # splitLines [] cs else splitLines (line @ [c]) cs)"

text \<open>\<^verbatim>\<open>String.prototype.trim\<close> strips white space and line terminators at both ends.\<close>

definition trim :: "string \<Rightarrow> string" where
  "trim s = rev (dropWhile isSpace (rev (dropWhile isSpace s)))"

lemma match_STRING_LITERAL:
  "match rxSTRING_LITERAL s = Some m \<Longrightarrow> m \<noteq> [] \<and> length m \<le> length s \<and> m = take (length m) s"
  unfolding rxSTRING_LITERAL_def chr_def seq.simps by (rule match_Bol_Sym)

text \<open>The loop over one line. The index \<^verbatim>\<open>i\<close> of the source is the length of what has
  been read: the first argument is \<^verbatim>\<open>line.slice(i)\<close>, so \<^verbatim>\<open>line[i]\<close> is its head and
  \<^verbatim>\<open>line.slice(i, i + 2)\<close> its first two characters. \<^verbatim>\<open>tokens.push\<close> appends.\<close>

function scanLine :: "string \<Rightarrow> token list \<Rightarrow> token list" where
  "scanLine [] tokens = tokens"
| "scanLine (c # cs) tokens =
     (if test rxSpace [c] then scanLine cs tokens
      else if c = CHR ''/'' \<and> (case cs of [] \<Rightarrow> False | d # _ \<Rightarrow> d = CHR ''/'') then
        tokens @ [Token COMMENT (c # cs)]
      else if c = dquote then
        (case match rxSTRING_LITERAL (c # cs) of
           Some m \<Rightarrow> scanLine (drop (length m) (c # cs)) (tokens @ [Token STRING_LITERAL m])
         | None \<Rightarrow> scanLine cs (tokens @ [Token UNDEFINED [dquote]]))
      else if test rxOPERATOR (take 2 (c # cs)) then
        scanLine (drop 2 (c # cs)) (tokens @ [Token OPERATOR (take 2 (c # cs))])
      else if test rxOPERATOR [c] then scanLine cs (tokens @ [Token OPERATOR [c]])
      else if test rxSEPARATOR [c] then scanLine cs (tokens @ [Token SEPARATOR [c]])
      else if test rxOPEN_PAREN [c] then scanLine cs (tokens @ [Token OPEN_PAREN [c]])
      else if test rxCLOSE_PAREN [c] then scanLine cs (tokens @ [Token CLOSE_PAREN [c]])
      else if test rxOPEN_BRACE [c] then scanLine cs (tokens @ [Token OPEN_BRACE [c]])
      else if test rxCLOSE_BRACE [c] then scanLine cs (tokens @ [Token CLOSE_BRACE [c]])
      else
        (let lexeme = takeWhile (\<lambda>x. test rxWordChar [x]) (c # cs)
         in if lexeme \<noteq> [] then
              scanLine (drop (length lexeme) (c # cs)) (tokens @ [classifyLexeme lexeme])
            else scanLine cs (tokens @ [Token UNDEFINED [c]])))"
  by pat_completeness auto
termination
proof (relation "measure (\<lambda>(line, tokens). length line)", goal_cases)
  case (4 c cs tokens m)
  from match_STRING_LITERAL[OF 4(4)] show ?case by (cases m) auto
qed auto

declare scanLine.simps(2) [simp del]

fun tokenizeLines :: "string list \<Rightarrow> token list \<Rightarrow> token list" where
  "tokenizeLines [] tokens = tokens"
| "tokenizeLines (line # lines) tokens =
     (if test rxHashLine line then tokenizeLines lines (tokens @ [Token PREPROCESSOR (trim line)])
      else tokenizeLines lines (scanLine line tokens))"

definition tokenize :: "string \<Rightarrow> token list" where
  "tokenize inputCode =
     (let (inputCode', tokens) =
            replaceG rxBlockComment
              (\<lambda>match tokens. (replicate (length match) CHR '' '', tokens @ [Token COMMENT match]))
              None inputCode [];
          lines = splitLines [] inputCode'
      in tokenizeLines lines tokens)"

section \<open>The syntax tree\<close>

datatype node =
    Null
  | ErrorNode string
  | Program "node list"
  | PreprocessorDirective string
  | FunctionDeclaration string string "node list" node
  | Parameter string string
  | CompoundStatement "node list"
  | IfStatement node node node
  | ForStatement node node node node
  | DeclarationStatement string "node list"
  | VariableDeclarator string node
  | ReturnStatement node
  | ExpressionStatement node
  | AssignmentExpression string node node
  | BinaryExpression string node node
  | PrefixExpression string node
  | PostfixExpression string node
  | Literal string
  | Identifier string
  | FunctionCall string "node list"
  | Unknown string

datatype 'a result = OutOfFuel | TypeError | Ok 'a

fun andThen :: "'a result \<Rightarrow> ('a \<Rightarrow> 'b result) \<Rightarrow> 'b result" where
  "andThen OutOfFuel f = OutOfFuel"
| "andThen TypeError f = TypeError"
| "andThen (Ok x) f = f x"

definition isTypeSpecifier :: "token \<Rightarrow> bool" where
  "isTypeSpecifier token =
     (ttype token = KEYWORD \<and> tvalue token \<in> set [''int'', ''char'', ''float'', ''double'', ''void''])"

definition valueIs :: "token list \<Rightarrow> nat \<Rightarrow> string \<Rightarrow> bool" where
  "valueIs tokens current v = (current < length tokens \<and> tvalue (tokens ! current) = v)"

definition typeIs :: "token list \<Rightarrow> nat \<Rightarrow> TokenType \<Rightarrow> bool" where
  "typeIs tokens current t = (current < length tokens \<and> ttype (tokens ! current) = t)"

text \<open>The loop of \<^verbatim>\<open>parsePostfix\<close>; it consumes a token in every round.\<close>

function parsePostfixLoop :: "token list \<Rightarrow> node \<Rightarrow> nat \<Rightarrow> node \<times> nat" where
  "parsePostfixLoop tokens node current =
     (if valueIs tokens current ''++'' \<or> valueIs tokens current ''--'' then
        (let op = tvalue (tokens ! current); current = current + 1
         in parsePostfixLoop tokens (PostfixExpression op node) current)
      else (node, current))"
  by pat_completeness auto
termination
  by (relation "measure (\<lambda>(tokens, node, current). length tokens - current)")
     (auto simp: valueIs_def)

declare parsePostfixLoop.simps [simp del]

function parseExpression :: "nat \<Rightarrow> token list \<Rightarrow> nat \<Rightarrow> (node \<times> nat) result"
  and parseAssignment :: "nat \<Rightarrow> token list \<Rightarrow> nat \<Rightarrow> (node \<times> nat) result"
  and parseEquality :: "nat \<Rightarrow> token list \<Rightarrow> nat \<Rightarrow> (node \<times> nat) result"
  and parseEqualityLoop :: "nat \<Rightarrow> token list \<Rightarrow> node \<Rightarrow> nat \<Rightarrow> (node \<times> nat) result"
  and parseRelational :: "nat \<Rightarrow> token list \<Rightarrow> nat \<Rightarrow> (node \<times> nat) result"
  and parseRelationalLoop :: "nat \<Rightarrow> token list \<Rightarrow> node \<Rightarrow> nat \<Rightarrow> (node \<times> nat) result"
  and parseAdditive :: "nat \<Rightarrow> token list \<Rightarrow> nat \<Rightarrow> (node \<times> nat) result"
  and parseAdditiveLoop :: "nat \<Rightarrow> token list \<Rightarrow> node \<Rightarrow> nat \<Rightarrow> (node \<times> nat) result"
  and parseMultiplicative :: "nat \<Rightarrow> token list \<Rightarrow> nat \<Rightarrow> (node \<times> nat) result"
  and parseMultiplicativeLoop :: "nat \<Rightarrow> token list \<Rightarrow> node \<Rightarrow> nat \<Rightarrow> (node \<times> nat) result"
  and parseUnary :: "nat \<Rightarrow> token list \<Rightarrow> nat \<Rightarrow> (node \<times> nat) result"
  and parsePostfix :: "nat \<Rightarrow> token list \<Rightarrow> nat \<Rightarrow> (node \<times> nat) result"
  and parsePrimary :: "nat \<Rightarrow> token list \<Rightarrow> nat \<Rightarrow> (node \<times> nat) result"
  and parseArguments :: "nat \<Rightarrow> token list \<Rightarrow> node list \<Rightarrow> nat \<Rightarrow> (node list \<times> nat) result"
where
  "parseExpression 0 tokens current = OutOfFuel"
| "parseExpression (Suc n) tokens current =
     parseAssignment n tokens current"
| "parseAssignment 0 tokens current = OutOfFuel"
| "parseAssignment (Suc n) tokens current =
     andThen (parseEquality n tokens current) (\<lambda>(left, current).
       if valueIs tokens current ''='' then
         (let op = tvalue (tokens ! current); current = current + 1
          in andThen (parseAssignment n tokens current) (\<lambda>(right, current).
               Ok (AssignmentExpression op left right, current)))
       else Ok (left, current))"
| "parseEquality 0 tokens current = OutOfFuel"
| "parseEquality (Suc n) tokens current =
     andThen (parseRelational n tokens current) (\<lambda>(left, current).
       parseEqualityLoop n tokens left current)"
| "parseEqualityLoop 0 tokens left current = OutOfFuel"
| "parseEqualityLoop (Suc n) tokens left current =
     (if valueIs tokens current ''=='' \<or> valueIs tokens current ''!='' then
        (let op = tvalue (tokens ! current); current = current + 1
         in andThen (parseRelational n tokens current) (\<lambda>(right, current).
              parseEqualityLoop n tokens (BinaryExpression op left right) current))
      else Ok (left, current))"
| "parseRelational 0 tokens current = OutOfFuel"
| "parseRelational (Suc n) tokens current =
     andThen (parseAdditive n tokens current) (\<lambda>(left, current).
       parseRelationalLoop n tokens left current)"
| "parseRelationalLoop 0 tokens left current = OutOfFuel"
| "parseRelationalLoop (Suc n) tokens left current =
     (if current < length tokens
         \<and> tvalue (tokens ! current) \<in> set [''<'', ''>'', ''<='', ''>=''] then
        (let op = tvalue (tokens ! current); current = current + 1
         in andThen (parseAdditive n tokens current) (\<lambda>(right, current).
              parseRelationalLoop n tokens (BinaryExpression op left right) current))
      else Ok (left, current))"
| "parseAdditive 0 tokens current = OutOfFuel"
| "parseAdditive (Suc n) tokens current =
     andThen (parseMultiplicative n tokens current) (\<lambda>(left, current).
       parseAdditiveLoop n tokens left current)"
| "parseAdditiveLoop 0 tokens left current = OutOfFuel"
| "parseAdditiveLoop (Suc n) tokens left current =
     (if valueIs tokens current ''+'' \<or> valueIs tokens current ''-'' then
        (let op = tvalue (tokens ! current); current = current + 1
         in andThen (parseMultiplicative n tokens current) (\<lambda>(right, current).
              parseAdditiveLoop n tokens (BinaryExpression op left right) current))
      else Ok (left, current))"
| "parseMultiplicative 0 tokens current = OutOfFuel"
| "parseMultiplicative (Suc n) tokens current =
     andThen (parseUnary n tokens current) (\<lambda>(left, current).
       parseMultiplicativeLoop n tokens left current)"
| "parseMultiplicativeLoop 0 tokens left current = OutOfFuel"
| "parseMultiplicativeLoop (Suc n) tokens left current =
     (if valueIs tokens current ''*'' \<or> valueIs tokens current ''/''
         \<or> valueIs tokens current ''%'' then
        (let op = tvalue (tokens ! current); current = current + 1
         in andThen (parseUnary n tokens current) (\<lambda>(right, current).
              parseMultiplicativeLoop n tokens (BinaryExpression op left right) current))
      else Ok (left, current))"
| "parseUnary 0 tokens current = OutOfFuel"
| "parseUnary (Suc n) tokens current =
     (if valueIs tokens current ''++'' \<or> valueIs tokens current ''--'' then
        (let op = tvalue (tokens ! current); current = current + 1
         in andThen (parseUnary n tokens current) (\<lambda>(argument, current).
              Ok (PrefixExpression op argument, current)))
      else parsePostfix n tokens current)"
| "parsePostfix 0 tokens current = OutOfFuel"
| "parsePostfix (Suc n) tokens current =
     andThen (parsePrimary n tokens current) (\<lambda>(node, current).
       Ok (parsePostfixLoop tokens node current))"
| "parsePrimary 0 tokens current = OutOfFuel"
| "parsePrimary (Suc n) tokens current =
     (if current \<ge> length tokens then Ok (Null, current)
      else
        (let token = tokens ! current
         in if (ttype token = SEPARATOR \<and> tvalue token = '';'') \<or> ttype token = CLOSE_PAREN then
              Ok (Null, current)
            else if ttype token = NUMBER \<or> ttype token = STRING_LITERAL then
              Ok (Literal (tvalue token), current + 1)
            else if ttype token = IDENTIFIER
                    \<or> (ttype token = KEYWORD \<and> \<not> isTypeSpecifier token) then
              (let current = current + 1;
                   node = Identifier (tvalue token)
               in if typeIs tokens current OPEN_PAREN then
                    andThen (parseArguments n tokens [] (current + 1)) (\<lambda>(args, current).
                      Ok (FunctionCall (tvalue token) args,
                          if typeIs tokens current CLOSE_PAREN then current + 1 else current))
                  else Ok (node, current))
            else if ttype token = OPEN_PAREN then
              andThen (parseExpression n tokens (current + 1)) (\<lambda>(expr, current).
                Ok (expr, if typeIs tokens current CLOSE_PAREN then current + 1 else current))
            else Ok (Unknown (tvalue token), current + 1)))"
| "parseArguments 0 tokens args current = OutOfFuel"
| "parseArguments (Suc n) tokens args current =
     (if current < length tokens \<and> ttype (tokens ! current) \<noteq> CLOSE_PAREN then
        andThen (parseExpression n tokens current) (\<lambda>(arg, current).
          parseArguments n tokens (if arg \<noteq> Null then args @ [arg] else args)
            (if valueIs tokens current '','' then current + 1 else current))
      else Ok (args, current))"
  by pat_completeness auto
termination
  by (relation "measure (case_sum
        (case_sum (case_sum fst (case_sum fst fst)) (case_sum (case_sum fst fst) (case_sum fst fst)))
        (case_sum (case_sum fst (case_sum fst fst)) (case_sum (case_sum fst fst) (case_sum fst fst))))")
     auto


definition isSemicolon :: "token list \<Rightarrow> nat \<Rightarrow> bool" where
  "isSemicolon tokens current =
     (current < length tokens \<and> ttype (tokens ! current) = SEPARATOR
      \<and> tvalue (tokens ! current) = '';'')"

definition parseReturnStatement :: "nat \<Rightarrow> token list \<Rightarrow> nat \<Rightarrow> (node \<times> nat) result" where
  "parseReturnStatement n tokens current =
     (let current = current + 1
      in andThen (parseExpression n tokens current) (\<lambda>(expr, current).
           Ok (ReturnStatement expr, if isSemicolon tokens current then current + 1 else current)))"

definition parseExpressionStatement :: "nat \<Rightarrow> token list \<Rightarrow> nat \<Rightarrow> (node \<times> nat) result" where
  "parseExpressionStatement n tokens current =
     andThen (parseExpression n tokens current) (\<lambda>(expr, current).
       Ok (ExpressionStatement expr, if isSemicolon tokens current then current + 1 else current))"

fun parseDeclarationLoop ::
    "nat \<Rightarrow> token list \<Rightarrow> bool \<Rightarrow> node list \<Rightarrow> nat \<Rightarrow> (node list \<times> nat) result" where
  "parseDeclarationLoop 0 tokens expectSemicolon variables current = OutOfFuel"
| "parseDeclarationLoop (Suc n) tokens expectSemicolon variables current =
     (if current \<ge> length tokens \<or> ttype (tokens ! current) \<noteq> IDENTIFIER then
        Ok (variables, current)
      else
        (let varName = tvalue (tokens ! current); current = current + 1
         in andThen
              (if valueIs tokens current ''='' then parseExpression n tokens (current + 1)
               else Ok (Null, current))
              (\<lambda>(initializer, current).
                 (let variables = variables @ [VariableDeclarator varName initializer]
                  in if current \<ge> length tokens then Ok (variables, current)
                     else if tvalue (tokens ! current) = '','' then
                       parseDeclarationLoop n tokens expectSemicolon variables (current + 1)
                     else if expectSemicolon \<and> isSemicolon tokens current then
                       Ok (variables, current + 1)
                     else Ok (variables, current)))))"

definition parseDeclaration ::
    "nat \<Rightarrow> token list \<Rightarrow> bool \<Rightarrow> nat \<Rightarrow> (node \<times> nat) result" where
  "parseDeclaration n tokens expectSemicolon current =
     (if current \<ge> length tokens then TypeError
      else
        (let varType = tvalue (tokens ! current); current = current + 1
         in andThen (parseDeclarationLoop n tokens expectSemicolon [] current)
              (\<lambda>(variables, current). Ok (DeclarationStatement varType variables, current))))"

function parseStatement :: "nat \<Rightarrow> token list \<Rightarrow> nat \<Rightarrow> (node \<times> nat) result"
  and parseIfStatement :: "nat \<Rightarrow> token list \<Rightarrow> nat \<Rightarrow> (node \<times> nat) result"
  and parseForStatement :: "nat \<Rightarrow> token list \<Rightarrow> nat \<Rightarrow> (node \<times> nat) result"
  and parseCompoundStatement :: "nat \<Rightarrow> token list \<Rightarrow> nat \<Rightarrow> (node \<times> nat) result"
  and parseCompoundLoop :: "nat \<Rightarrow> token list \<Rightarrow> node list \<Rightarrow> nat \<Rightarrow> (node list \<times> nat) result"
where
  "parseStatement 0 tokens current = OutOfFuel"
| "parseStatement (Suc n) tokens current =
     (if current \<ge> length tokens then Ok (Null, current)
      else
        (let token = tokens ! current
         in if ttype token = COMMENT then Ok (Null, current + 1)
            else if ttype token = KEYWORD \<and> tvalue token = ''return'' then
              parseReturnStatement n tokens current
            else if ttype token = KEYWORD \<and> tvalue token = ''if'' then
              parseIfStatement n tokens current
            else if ttype token = KEYWORD \<and> tvalue token = ''for'' then
              parseForStatement n tokens current
            else if isTypeSpecifier token then parseDeclaration n tokens True current
            else if ttype token = OPEN_BRACE then parseCompoundStatement n tokens current
            else parseExpressionStatement n tokens current))"
| "parseIfStatement 0 tokens current = OutOfFuel"
| "parseIfStatement (Suc n) tokens current =
     (let current = current + 1
      in if current \<ge> length tokens \<or> ttype (tokens ! current) \<noteq> OPEN_PAREN then
           Ok (ErrorNode ''Expected '(' after if'', current)
         else
           andThen (parseExpression n tokens (current + 1)) (\<lambda>(condition, current).
             if current \<ge> length tokens \<or> ttype (tokens ! current) \<noteq> CLOSE_PAREN then
               Ok (ErrorNode ''Expected ')' after if condition'', current)
             else
               andThen (parseStatement n tokens (current + 1)) (\<lambda>(thenStmt, current).
                 if current < length tokens \<and> ttype (tokens ! current) = KEYWORD
                    \<and> tvalue (tokens ! current) = ''else'' then
                   andThen (parseStatement n tokens (current + 1)) (\<lambda>(elseStmt, current).
                     Ok (IfStatement condition thenStmt elseStmt, current))
                 else Ok (IfStatement condition thenStmt Null, current))))"
| "parseForStatement 0 tokens current = OutOfFuel"
| "parseForStatement (Suc n) tokens current =
     (let current = current + 1
      in if current \<ge> length tokens \<or> ttype (tokens ! current) \<noteq> OPEN_PAREN then
           Ok (ErrorNode ''Expected '(' after for'', current)
         else
           (let current = current + 1
            in andThen
                 (if current < length tokens \<and> isTypeSpecifier (tokens ! current) then
                    parseDeclaration n tokens False current
                  else parseExpression n tokens current)
                 (\<lambda>(initialization, current).
                    (let current = (if isSemicolon tokens current then current + 1 else current)
                     in andThen (parseExpression n tokens current) (\<lambda>(condition, current).
                          (let current = (if isSemicolon tokens current then current + 1 else current)
                           in andThen (parseExpression n tokens current) (\<lambda>(increment, current).
                                if current \<ge> length tokens
                                   \<or> ttype (tokens ! current) \<noteq> CLOSE_PAREN then
                                  Ok (ErrorNode ''Expected ')' after for increment'', current)
                                else
                                  andThen (parseStatement n tokens (current + 1)) (\<lambda>(body, current).
                                    Ok (ForStatement initialization condition increment body,
                                        current)))))))))"
| "parseCompoundStatement 0 tokens current = OutOfFuel"
| "parseCompoundStatement (Suc n) tokens current =
     (if current \<ge> length tokens then TypeError
      else if ttype (tokens ! current) \<noteq> OPEN_BRACE then
        Ok (ErrorNode ''Expected '{' at beginning of compound statement'', current)
      else
        andThen (parseCompoundLoop n tokens [] (current + 1)) (\<lambda>(body, current).
          if typeIs tokens current CLOSE_BRACE then Ok (CompoundStatement body, current + 1)
          else Ok (ErrorNode ''Expected '}' at end of compound statement'', current)))"
| "parseCompoundLoop 0 tokens body current = OutOfFuel"
| "parseCompoundLoop (Suc n) tokens body current =
     (if current < length tokens \<and> ttype (tokens ! current) \<noteq> CLOSE_BRACE then
        andThen (parseStatement n tokens current) (\<lambda>(stmt, current).
          parseCompoundLoop n tokens (if stmt \<noteq> Null then body @ [stmt] else body) current)
      else Ok (body, current))"
  by pat_completeness auto
termination
  by (relation "measure (case_sum (case_sum fst fst) (case_sum fst (case_sum fst fst)))") auto

function parseParameters :: "token list \<Rightarrow> node list \<Rightarrow> nat \<Rightarrow> node list \<times> nat" where
  "parseParameters tokens parameters current =
     (if current < length tokens \<and> tvalue (tokens ! current) \<noteq> '')'' then
        (if tvalue (tokens ! current) = '','' then parseParameters tokens parameters (current + 1)
         else if isTypeSpecifier (tokens ! current) then
           (let paramType = tvalue (tokens ! current);
                current = current + 1;
                paramName = (if current < length tokens then tvalue (tokens ! current)
                             else ''<missing id>'');
                current = current + 1
            in parseParameters tokens (parameters @ [Parameter paramType paramName]) current)
         else parseParameters tokens parameters (current + 1))
      else (parameters, current))"
  by pat_completeness auto
termination
  by (relation "measure (\<lambda>(tokens, parameters, current). length tokens - current)") auto

declare parseParameters.simps [simp del]

definition parseFunctionDefinition :: "nat \<Rightarrow> token list \<Rightarrow> nat \<Rightarrow> (node \<times> nat) result" where
  "parseFunctionDefinition n tokens current =
     (if current \<ge> length tokens then TypeError
      else
        (let returnType = tvalue (tokens ! current); current = current + 1
         in if current \<ge> length tokens \<or> ttype (tokens ! current) \<noteq> IDENTIFIER then
              Ok (ErrorNode ''Expected function name'', current)
            else
              (let funcName = tvalue (tokens ! current); current = current + 1
               in if current \<ge> length tokens \<or> ttype (tokens ! current) \<noteq> OPEN_PAREN then
                    Ok (ErrorNode ''Expected '(' after function name'', current)
                  else
                    (let (parameters, current) = parseParameters tokens [] (current + 1)
                     in if current \<ge> length tokens then
                          Ok (ErrorNode
                                ''Unexpected end of input while parsing function parameters'',
                              current)
                        else
                          (let current = current + 1
                           in if current \<ge> length tokens
                                 \<or> ttype (tokens ! current) \<noteq> OPEN_BRACE then
                                Ok (ErrorNode ''Expected '{' at beginning of function body'',
                                    current)
                              else
                                andThen (parseCompoundStatement n tokens current)
                                  (\<lambda>(bodyNode, current).
                                     Ok (FunctionDeclaration returnType funcName parameters
                                           bodyNode, current)))))))"

fun parseProgramLoop :: "nat \<Rightarrow> token list \<Rightarrow> node list \<Rightarrow> nat \<Rightarrow> (node \<times> nat) result" where
  "parseProgramLoop 0 tokens body current = OutOfFuel"
| "parseProgramLoop (Suc n) tokens body current =
     (if current < length tokens then
        (let token = tokens ! current
         in if ttype token = COMMENT then parseProgramLoop n tokens body (current + 1)
            else if ttype token = PREPROCESSOR then
              parseProgramLoop n tokens (body @ [PreprocessorDirective (trim (tvalue token))])
                (current + 1)
            else if isTypeSpecifier token then
              andThen (parseFunctionDefinition n tokens current) (\<lambda>(funcNode, current).
                parseProgramLoop n tokens (if funcNode \<noteq> Null then body @ [funcNode] else body)
                  current)
            else parseProgramLoop n tokens body (current + 1))
      else Ok (Program body, current))"

text \<open>\<^verbatim>\<open>current\<close> is a variable of the module: a call of \<^verbatim>\<open>parse\<close> finds in it what the
  call before left there, and leaves its own last value. The model takes the value found
  and returns the value left.\<close>

definition parseProgram :: "nat \<Rightarrow> token list \<Rightarrow> nat \<Rightarrow> (node \<times> nat) result" where
  "parseProgram n tokens current = (let current = 0 in parseProgramLoop n tokens [] current)"

definition parse :: "nat \<Rightarrow> token list \<Rightarrow> nat \<Rightarrow> (node \<times> nat) result" where
  "parse n tokens current = parseProgram n tokens current"

text \<open>The equations of the parser are unfolded by hand in the general proofs; concrete
  runs are evaluated with the code equations.\<close>

declare parseExpression.simps [simp del] parseAssignment.simps [simp del]
  parseEquality.simps [simp del] parseEqualityLoop.simps [simp del]
  parseRelational.simps [simp del] parseRelationalLoop.simps [simp del]
  parseAdditive.simps [simp del] parseAdditiveLoop.simps [simp del]
  parseMultiplicative.simps [simp del] parseMultiplicativeLoop.simps [simp del]
  parseUnary.simps [simp del] parsePostfix.simps [simp del]
  parsePrimary.simps [simp del] parseArguments.simps [simp del]
  parseStatement.simps [simp del] parseIfStatement.simps [simp del]
  parseForStatement.simps [simp del] parseCompoundStatement.simps [simp del]
  parseCompoundLoop.simps [simp del] parseDeclarationLoop.simps [simp del]
  parseProgramLoop.simps [simp del]

section \<open>More fuel never changes a result\<close>

text \<open>\<open>fuel_le a b\<close>: the run \<open>b\<close> had at least the fuel of the run \<open>a\<close>. Either \<open>a\<close> ran
  out of fuel, or both are the same result.\<close>

definition fuel_le :: "'a result \<Rightarrow> 'a result \<Rightarrow> bool" where
  "fuel_le a b = (a = OutOfFuel \<or> a = b)"

lemma fuel_le_refl: "fuel_le a a"
  by (simp add: fuel_le_def)

lemma fuel_le_OutOfFuel: "fuel_le OutOfFuel b"
  by (simp add: fuel_le_def)

lemma fuel_le_trans: "fuel_le a b \<Longrightarrow> fuel_le b c \<Longrightarrow> fuel_le a c"
  by (auto simp: fuel_le_def)

lemma fuel_le_andThen:
  "fuel_le a b \<Longrightarrow> (\<And>x. fuel_le (f x) (g x)) \<Longrightarrow> fuel_le (andThen a f) (andThen b g)"
  by (cases a; cases b) (auto simp: fuel_le_def)

lemma fuel_le_if:
  "(c \<Longrightarrow> fuel_le a b) \<Longrightarrow> (\<not> c \<Longrightarrow> fuel_le a' b')
   \<Longrightarrow> fuel_le (if c then a else a') (if c then b else b')"
  by simp

lemma fuel_le_prod:
  "(\<And>x y. fuel_le (f x y) (g x y))
   \<Longrightarrow> fuel_le (case p of (x, y) \<Rightarrow> f x y) (case p of (x, y) \<Rightarrow> g x y)"
  by (cases p) simp

lemma fuel_le_Let: "fuel_le (f v) (g v) \<Longrightarrow> fuel_le (Let v f) (Let v g)"
  by simp

lemmas fuel_le_intros = fuel_le_andThen fuel_le_if fuel_le_prod fuel_le_Let

definition expr_mono :: "nat \<Rightarrow> bool" where
  "expr_mono n =
     ((\<forall>t c. fuel_le (parseExpression n t c) (parseExpression (Suc n) t c))
    \<and> (\<forall>t c. fuel_le (parseAssignment n t c) (parseAssignment (Suc n) t c))
    \<and> (\<forall>t c. fuel_le (parseEquality n t c) (parseEquality (Suc n) t c))
    \<and> (\<forall>t l c. fuel_le (parseEqualityLoop n t l c) (parseEqualityLoop (Suc n) t l c))
    \<and> (\<forall>t c. fuel_le (parseRelational n t c) (parseRelational (Suc n) t c))
    \<and> (\<forall>t l c. fuel_le (parseRelationalLoop n t l c) (parseRelationalLoop (Suc n) t l c))
    \<and> (\<forall>t c. fuel_le (parseAdditive n t c) (parseAdditive (Suc n) t c))
    \<and> (\<forall>t l c. fuel_le (parseAdditiveLoop n t l c) (parseAdditiveLoop (Suc n) t l c))
    \<and> (\<forall>t c. fuel_le (parseMultiplicative n t c) (parseMultiplicative (Suc n) t c))
    \<and> (\<forall>t l c. fuel_le (parseMultiplicativeLoop n t l c) (parseMultiplicativeLoop (Suc n) t l c))
    \<and> (\<forall>t c. fuel_le (parseUnary n t c) (parseUnary (Suc n) t c))
    \<and> (\<forall>t c. fuel_le (parsePostfix n t c) (parsePostfix (Suc n) t c))
    \<and> (\<forall>t c. fuel_le (parsePrimary n t c) (parsePrimary (Suc n) t c))
    \<and> (\<forall>t l c. fuel_le (parseArguments n t l c) (parseArguments (Suc n) t l c)))"

lemma expr_mono_0: "expr_mono 0"
  by (simp add: expr_mono_def fuel_le_OutOfFuel parseExpression.simps(1) parseAssignment.simps(1) parseEquality.simps(1) parseEqualityLoop.simps(1) parseRelational.simps(1) parseRelationalLoop.simps(1) parseAdditive.simps(1) parseAdditiveLoop.simps(1) parseMultiplicative.simps(1) parseMultiplicativeLoop.simps(1) parseUnary.simps(1) parsePostfix.simps(1) parsePrimary.simps(1) parseArguments.simps(1))

lemma expr_mono_Suc:
  assumes "expr_mono n"
  shows "expr_mono (Suc n)"
proof -
  from assms have ih:
    "\<And>t c. fuel_le (parseExpression n t c) (parseExpression (Suc n) t c)"
    "\<And>t c. fuel_le (parseAssignment n t c) (parseAssignment (Suc n) t c)"
    "\<And>t c. fuel_le (parseEquality n t c) (parseEquality (Suc n) t c)"
    "\<And>t l c. fuel_le (parseEqualityLoop n t l c) (parseEqualityLoop (Suc n) t l c)"
    "\<And>t c. fuel_le (parseRelational n t c) (parseRelational (Suc n) t c)"
    "\<And>t l c. fuel_le (parseRelationalLoop n t l c) (parseRelationalLoop (Suc n) t l c)"
    "\<And>t c. fuel_le (parseAdditive n t c) (parseAdditive (Suc n) t c)"
    "\<And>t l c. fuel_le (parseAdditiveLoop n t l c) (parseAdditiveLoop (Suc n) t l c)"
    "\<And>t c. fuel_le (parseMultiplicative n t c) (parseMultiplicative (Suc n) t c)"
    "\<And>t l c. fuel_le (parseMultiplicativeLoop n t l c) (parseMultiplicativeLoop (Suc n) t l c)"
    "\<And>t c. fuel_le (parseUnary n t c) (parseUnary (Suc n) t c)"
    "\<And>t c. fuel_le (parsePostfix n t c) (parsePostfix (Suc n) t c)"
    "\<And>t c. fuel_le (parsePrimary n t c) (parsePrimary (Suc n) t c)"
    "\<And>t l c. fuel_le (parseArguments n t l c) (parseArguments (Suc n) t l c)"
    unfolding expr_mono_def by simp_all
  have s1: "fuel_le (parseExpression (Suc n) t c) (parseExpression (Suc (Suc n)) t c)" for t c
    unfolding parseExpression.simps(2)[of n t c] parseExpression.simps(2)[of "Suc n" t c]
    by (intro fuel_le_intros ih fuel_le_refl)
  have s2: "fuel_le (parseAssignment (Suc n) t c) (parseAssignment (Suc (Suc n)) t c)" for t c
    unfolding parseAssignment.simps(2)[of n t c] parseAssignment.simps(2)[of "Suc n" t c]
    by (intro fuel_le_intros ih fuel_le_refl)
  have s3: "fuel_le (parseEquality (Suc n) t c) (parseEquality (Suc (Suc n)) t c)" for t c
    unfolding parseEquality.simps(2)[of n t c] parseEquality.simps(2)[of "Suc n" t c]
    by (intro fuel_le_intros ih fuel_le_refl)
  have s4: "fuel_le (parseEqualityLoop (Suc n) t l c) (parseEqualityLoop (Suc (Suc n)) t l c)" for t l c
    unfolding parseEqualityLoop.simps(2)[of n t l c] parseEqualityLoop.simps(2)[of "Suc n" t l c]
    by (intro fuel_le_intros ih fuel_le_refl)
  have s5: "fuel_le (parseRelational (Suc n) t c) (parseRelational (Suc (Suc n)) t c)" for t c
    unfolding parseRelational.simps(2)[of n t c] parseRelational.simps(2)[of "Suc n" t c]
    by (intro fuel_le_intros ih fuel_le_refl)
  have s6: "fuel_le (parseRelationalLoop (Suc n) t l c) (parseRelationalLoop (Suc (Suc n)) t l c)" for t l c
    unfolding parseRelationalLoop.simps(2)[of n t l c] parseRelationalLoop.simps(2)[of "Suc n" t l c]
    by (intro fuel_le_intros ih fuel_le_refl)
  have s7: "fuel_le (parseAdditive (Suc n) t c) (parseAdditive (Suc (Suc n)) t c)" for t c
    unfolding parseAdditive.simps(2)[of n t c] parseAdditive.simps(2)[of "Suc n" t c]
    by (intro fuel_le_intros ih fuel_le_refl)
  have s8: "fuel_le (parseAdditiveLoop (Suc n) t l c) (parseAdditiveLoop (Suc (Suc n)) t l c)" for t l c
    unfolding parseAdditiveLoop.simps(2)[of n t l c] parseAdditiveLoop.simps(2)[of "Suc n" t l c]
    by (intro fuel_le_intros ih fuel_le_refl)
  have s9: "fuel_le (parseMultiplicative (Suc n) t c) (parseMultiplicative (Suc (Suc n)) t c)" for t c
    unfolding parseMultiplicative.simps(2)[of n t c] parseMultiplicative.simps(2)[of "Suc n" t c]
    by (intro fuel_le_intros ih fuel_le_refl)
  have s10: "fuel_le (parseMultiplicativeLoop (Suc n) t l c) (parseMultiplicativeLoop (Suc (Suc n)) t l c)" for t l c
    unfolding parseMultiplicativeLoop.simps(2)[of n t l c] parseMultiplicativeLoop.simps(2)[of "Suc n" t l c]
    by (intro fuel_le_intros ih fuel_le_refl)
  have s11: "fuel_le (parseUnary (Suc n) t c) (parseUnary (Suc (Suc n)) t c)" for t c
    unfolding parseUnary.simps(2)[of n t c] parseUnary.simps(2)[of "Suc n" t c]
    by (intro fuel_le_intros ih fuel_le_refl)
  have s12: "fuel_le (parsePostfix (Suc n) t c) (parsePostfix (Suc (Suc n)) t c)" for t c
    unfolding parsePostfix.simps(2)[of n t c] parsePostfix.simps(2)[of "Suc n" t c]
    by (intro fuel_le_intros ih fuel_le_refl)
  have s13: "fuel_le (parsePrimary (Suc n) t c) (parsePrimary (Suc (Suc n)) t c)" for t c
    unfolding parsePrimary.simps(2)[of n t c] parsePrimary.simps(2)[of "Suc n" t c]
    by (intro fuel_le_intros ih fuel_le_refl)
  have s14: "fuel_le (parseArguments (Suc n) t l c) (parseArguments (Suc (Suc n)) t l c)" for t l c
    unfolding parseArguments.simps(2)[of n t l c] parseArguments.simps(2)[of "Suc n" t l c]
    by (intro fuel_le_intros ih fuel_le_refl)
  show ?thesis
    unfolding expr_mono_def using s1 s2 s3 s4 s5 s6 s7 s8 s9 s10 s11 s12 s13 s14 by blast
qed

lemma expr_mono_all: "expr_mono n"
  by (induction n) (simp_all add: expr_mono_0 expr_mono_Suc)

lemma parseExpression_Suc: "fuel_le (parseExpression n t c) (parseExpression (Suc n) t c)"
  using expr_mono_all[of n] by (simp add: expr_mono_def)

lemma parseReturnStatement_Suc:
  "fuel_le (parseReturnStatement n t c) (parseReturnStatement (Suc n) t c)"
  unfolding parseReturnStatement_def
  by (intro fuel_le_intros parseExpression_Suc fuel_le_refl)

lemma parseExpressionStatement_Suc:
  "fuel_le (parseExpressionStatement n t c) (parseExpressionStatement (Suc n) t c)"
  unfolding parseExpressionStatement_def
  by (intro fuel_le_intros parseExpression_Suc fuel_le_refl)

lemma parseDeclarationLoop_Suc:
  "fuel_le (parseDeclarationLoop n t e v c) (parseDeclarationLoop (Suc n) t e v c)"
proof (induction n arbitrary: v c)
  case 0
  show ?case by (simp add: parseDeclarationLoop.simps(1) fuel_le_OutOfFuel)
next
  case (Suc n)
  show ?case
    unfolding parseDeclarationLoop.simps(2)[of n t e v c]
      parseDeclarationLoop.simps(2)[of "Suc n" t e v c]
    by (intro fuel_le_intros parseExpression_Suc Suc.IH fuel_le_refl)
qed

lemma parseDeclaration_Suc:
  "fuel_le (parseDeclaration n t e c) (parseDeclaration (Suc n) t e c)"
  unfolding parseDeclaration_def
  by (intro fuel_le_intros parseDeclarationLoop_Suc fuel_le_refl)

lemmas leaf_Suc = parseExpression_Suc parseReturnStatement_Suc parseExpressionStatement_Suc
  parseDeclaration_Suc

definition stmt_mono :: "nat \<Rightarrow> bool" where
  "stmt_mono n =
     ((\<forall>t c. fuel_le (parseStatement n t c) (parseStatement (Suc n) t c))
    \<and> (\<forall>t c. fuel_le (parseIfStatement n t c) (parseIfStatement (Suc n) t c))
    \<and> (\<forall>t c. fuel_le (parseForStatement n t c) (parseForStatement (Suc n) t c))
    \<and> (\<forall>t c. fuel_le (parseCompoundStatement n t c) (parseCompoundStatement (Suc n) t c))
    \<and> (\<forall>t l c. fuel_le (parseCompoundLoop n t l c) (parseCompoundLoop (Suc n) t l c)))"

lemma stmt_mono_0: "stmt_mono 0"
  by (simp add: stmt_mono_def fuel_le_OutOfFuel parseStatement.simps(1) parseIfStatement.simps(1) parseForStatement.simps(1) parseCompoundStatement.simps(1) parseCompoundLoop.simps(1))

lemma stmt_mono_Suc:
  assumes "stmt_mono n"
  shows "stmt_mono (Suc n)"
proof -
  from assms have ih:
    "\<And>t c. fuel_le (parseStatement n t c) (parseStatement (Suc n) t c)"
    "\<And>t c. fuel_le (parseIfStatement n t c) (parseIfStatement (Suc n) t c)"
    "\<And>t c. fuel_le (parseForStatement n t c) (parseForStatement (Suc n) t c)"
    "\<And>t c. fuel_le (parseCompoundStatement n t c) (parseCompoundStatement (Suc n) t c)"
    "\<And>t l c. fuel_le (parseCompoundLoop n t l c) (parseCompoundLoop (Suc n) t l c)"
    unfolding stmt_mono_def by simp_all
  have s1: "fuel_le (parseStatement (Suc n) t c) (parseStatement (Suc (Suc n)) t c)" for t c
    unfolding parseStatement.simps(2)[of n t c] parseStatement.simps(2)[of "Suc n" t c]
    by (intro fuel_le_intros ih leaf_Suc fuel_le_refl)
  have s2: "fuel_le (parseIfStatement (Suc n) t c) (parseIfStatement (Suc (Suc n)) t c)" for t c
    unfolding parseIfStatement.simps(2)[of n t c] parseIfStatement.simps(2)[of "Suc n" t c]
    by (intro fuel_le_intros ih leaf_Suc fuel_le_refl)
  have s3: "fuel_le (parseForStatement (Suc n) t c) (parseForStatement (Suc (Suc n)) t c)" for t c
    unfolding parseForStatement.simps(2)[of n t c] parseForStatement.simps(2)[of "Suc n" t c]
    by (intro fuel_le_intros ih leaf_Suc fuel_le_refl)
  have s4: "fuel_le (parseCompoundStatement (Suc n) t c) (parseCompoundStatement (Suc (Suc n)) t c)" for t c
    unfolding parseCompoundStatement.simps(2)[of n t c] parseCompoundStatement.simps(2)[of "Suc n" t c]
    by (intro fuel_le_intros ih leaf_Suc fuel_le_refl)
  have s5: "fuel_le (parseCompoundLoop (Suc n) t l c) (parseCompoundLoop (Suc (Suc n)) t l c)" for t l c
    unfolding parseCompoundLoop.simps(2)[of n t l c] parseCompoundLoop.simps(2)[of "Suc n" t l c]
    by (intro fuel_le_intros ih leaf_Suc fuel_le_refl)
  show ?thesis
    unfolding stmt_mono_def using s1 s2 s3 s4 s5 by blast
qed

lemma stmt_mono_all: "stmt_mono n"
  by (induction n) (simp_all add: stmt_mono_0 stmt_mono_Suc)

lemma parseCompoundStatement_Suc:
  "fuel_le (parseCompoundStatement n t c) (parseCompoundStatement (Suc n) t c)"
  using stmt_mono_all[of n] by (simp add: stmt_mono_def)

lemma parseStatement_Suc:
  "fuel_le (parseStatement n t c) (parseStatement (Suc n) t c)"
  using stmt_mono_all[of n] by (simp add: stmt_mono_def)

lemma parseCompoundLoop_Suc:
  "fuel_le (parseCompoundLoop n t l c) (parseCompoundLoop (Suc n) t l c)"
  using stmt_mono_all[of n] by (simp add: stmt_mono_def)

lemma parseFunctionDefinition_Suc:
  "fuel_le (parseFunctionDefinition n t c) (parseFunctionDefinition (Suc n) t c)"
  unfolding parseFunctionDefinition_def
  by (intro fuel_le_intros parseCompoundStatement_Suc fuel_le_refl)

lemma parseProgramLoop_Suc:
  "fuel_le (parseProgramLoop n t b c) (parseProgramLoop (Suc n) t b c)"
proof (induction n arbitrary: b c)
  case 0
  show ?case by (simp add: parseProgramLoop.simps(1) fuel_le_OutOfFuel)
next
  case (Suc n)
  show ?case
    unfolding parseProgramLoop.simps(2)[of n t b c] parseProgramLoop.simps(2)[of "Suc n" t b c]
    by (intro fuel_le_intros parseFunctionDefinition_Suc Suc.IH fuel_le_refl)
qed

lemma parse_Suc: "fuel_le (parse n t c) (parse (Suc n) t c')"
  unfolding parse_def parseProgram_def Let_def by (rule parseProgramLoop_Suc)

lemma parse_fuel_le: "fuel_le (parse n t c) (parse (n + k) t c')"
proof (induction k)
  case 0
  show ?case using parse_Suc by (simp add: parse_def parseProgram_def fuel_le_refl)
next
  case (Suc k)
  from Suc parse_Suc[of "n + k" t c' c'] show ?case
    by (auto intro: fuel_le_trans)
qed

lemma fuel_le_steps:
  assumes "\<And>n. fuel_le (f n) (f (Suc n))"
  shows "fuel_le (f n) (f (n + k))"
proof (induction k)
  case 0
  show ?case by (simp add: fuel_le_refl)
next
  case (Suc k)
  from Suc assms[of "n + k"] show ?case by (auto intro: fuel_le_trans)
qed

lemma fuel_le_bounded:
  assumes step: "\<And>n. fuel_le (f n) (f (Suc n))" and m: "f m = Ok v"
  shows "f n = OutOfFuel \<or> f n = Ok v"
proof (cases "n \<le> m")
  case True
  from fuel_le_steps[of f n "m - n", OF step] True m show ?thesis
    by (simp add: fuel_le_def)
next
  case False
  from fuel_le_steps[of f m "n - m", OF step] False m show ?thesis
    by (simp add: fuel_le_def)
qed

lemma parseExpression_enough_fuel:
  "parseExpression n t c = Ok r \<Longrightarrow> parseExpression (n + k) t c = Ok r"
  using fuel_le_steps[of "\<lambda>n. parseExpression n t c" n k, OF parseExpression_Suc]
  by (simp add: fuel_le_def)


lemma parse_enough_fuel: "parse n t c = Ok r \<Longrightarrow> parse (n + k) t c' = Ok r"
  using parse_fuel_le[of n t c k c'] by (simp add: fuel_le_def)

section \<open>The claims\<close>

text \<open>
  C3 (function round trip). Tokenizing and then parsing \<^verbatim>\<open>int main(){ return 0; }\<close> returns,
  with any fuel of at least 40 and whatever the cursor held before, a Program whose body is
  exactly one FunctionDeclaration with return type \<^verbatim>\<open>int\<close>, name \<^verbatim>\<open>main\<close>, no parameters,
  and a CompoundStatement holding exactly one ReturnStatement of \<open>Literal ''0''\<close>.
\<close>

theorem function_round_trip:
  "parse (40 + k) (tokenize ''int main(){ return 0; }'') current =
     Ok (Program [FunctionDeclaration ''int'' ''main'' []
                    (CompoundStatement [ReturnStatement (Literal ''0'')])], 9)"
proof -
  have "parse 40 (tokenize ''int main(){ return 0; }'') 0 =
     Ok (Program [FunctionDeclaration ''int'' ''main'' []
                    (CompoundStatement [ReturnStatement (Literal ''0'')])], 9)"
    by code_simp
  then show ?thesis by (rule parse_enough_fuel)
qed

text \<open>
  C7 (graceful malformation). Tokenizing and then parsing \<^verbatim>\<open>int f(int a { return a; }\<close>,
  where the closing parenthesis is missing, returns normally: the result is a Program whose
  only child is the error node with the message
  \<^verbatim>\<open>Unexpected end of input while parsing function parameters\<close>.
\<close>

theorem missing_paren_error_node:
  "parse (40 + k) (tokenize ''int f(int a { return a; }'') current =
     Ok (Program [ErrorNode ''Unexpected end of input while parsing function parameters''], 10)"
proof -
  have "parse 40 (tokenize ''int f(int a { return a; }'') 0 =
     Ok (Program [ErrorNode ''Unexpected end of input while parsing function parameters''], 10)"
    by code_simp
  then show ?thesis by (rule parse_enough_fuel)
qed

text \<open>
  C5 (keyword precedence). Every reserved word is classified as a KEYWORD and not as an
  IDENTIFIER. The identifier pattern matches each of them too, and with the two entries in
  the other order the result would be IDENTIFIER: the order of \<^verbatim>\<open>tokenRegex\<close> decides.
\<close>

theorem keyword_precedence:
  "\<forall>w \<in> set reservedWords.
     classifyLexeme w = Token KEYWORD w \<and> ttype (classifyLexeme w) \<noteq> IDENTIFIER
     \<and> test rxIDENTIFIER w
     \<and> classifyLoop [(IDENTIFIER, rxIDENTIFIER), (KEYWORD, rxKEYWORD)] w = Token IDENTIFIER w"
  by code_simp

theorem keyword_precedence_witness:
  "''return'' \<in> set reservedWords \<and> classifyLexeme ''return'' = Token KEYWORD ''return''
   \<and> ttype (classifyLexeme ''return'') \<noteq> IDENTIFIER"
  using keyword_precedence by (simp add: reservedWords_def)



subsection \<open>A statement that does not advance\<close>

text \<open>\<^verbatim>\<open>parsePrimary\<close> returns \<^verbatim>\<open>null\<close> at a closing parenthesis without moving the
  cursor, and no caller up to \<^verbatim>\<open>parseStatement\<close> moves it either. Inside a compound
  statement the loop then asks for the same statement again, for ever.\<close>

definition stallTokens :: "token list" where
  "stallTokens =
     [Token KEYWORD ''int'', Token IDENTIFIER ''f'', Token OPEN_PAREN ''('',
      Token CLOSE_PAREN '')'', Token OPEN_BRACE ''{'', Token CLOSE_PAREN '')'',
      Token CLOSE_BRACE ''}'']"

lemma tokenize_stall: "tokenize ''int f(){ ) }'' = stallTokens"
  by code_simp

lemma stall_statement:
  "parseStatement n stallTokens 5 = OutOfFuel
   \<or> parseStatement n stallTokens 5 = Ok (ExpressionStatement Null, 5)"
proof (rule fuel_le_bounded[where f = "\<lambda>n. parseStatement n stallTokens 5" and m = 30])
  show "parseStatement 30 stallTokens 5 = Ok (ExpressionStatement Null, 5)"
    by code_simp
qed (rule parseStatement_Suc)

lemma stall_loop: "parseCompoundLoop n stallTokens body 5 = OutOfFuel"
proof (induction n arbitrary: body)
  case 0
  show ?case by (simp add: parseCompoundLoop.simps(1))
next
  case (Suc n)
  from stall_statement[of n] show ?case
  proof
    assume "parseStatement n stallTokens 5 = OutOfFuel"
    then show ?thesis
      by (simp add: parseCompoundLoop.simps(2) stallTokens_def)
  next
    assume "parseStatement n stallTokens 5 = Ok (ExpressionStatement Null, 5)"
    then show ?thesis
      using Suc.IH[of "body @ [ExpressionStatement Null]"]
      by (simp add: parseCompoundLoop.simps(2)) (simp add: stallTokens_def)
  qed
qed

lemma stall_compound_unfold:
  "parseCompoundStatement (Suc n) stallTokens 4 =
     andThen (parseCompoundLoop n stallTokens [] 5) (\<lambda>(body, current).
       if typeIs stallTokens current CLOSE_BRACE then Ok (CompoundStatement body, current + 1)
       else Ok (ErrorNode ''Expected '}' at end of compound statement'', current))"
  by code_simp

lemma stall_compound: "parseCompoundStatement n stallTokens 4 = OutOfFuel"
proof (cases n)
  case 0
  then show ?thesis by (simp add: parseCompoundStatement.simps(1))
next
  case (Suc m)
  show ?thesis
    unfolding Suc stall_compound_unfold by (simp add: stall_loop)
qed

lemma stall_function_unfold:
  "parseFunctionDefinition n stallTokens 0 =
     andThen (parseCompoundStatement n stallTokens 4) (\<lambda>(bodyNode, current).
       Ok (FunctionDeclaration ''int'' ''f'' [] bodyNode, current))"
  by code_simp

lemma stall_function: "parseFunctionDefinition n stallTokens 0 = OutOfFuel"
  unfolding stall_function_unfold by (simp add: stall_compound)

lemma stall_program_unfold:
  "parseProgramLoop (Suc n) stallTokens [] 0 =
     andThen (parseFunctionDefinition n stallTokens 0) (\<lambda>(funcNode, current).
       parseProgramLoop n stallTokens (if funcNode \<noteq> Null then [] @ [funcNode] else []) current)"
  by code_simp

lemma stall_program: "parseProgramLoop n stallTokens [] 0 = OutOfFuel"
proof (cases n)
  case 0
  then show ?thesis by (simp add: parseProgramLoop.simps(1))
next
  case (Suc m)
  show ?thesis
    unfolding Suc stall_program_unfold by (simp add: stall_function)
qed

text \<open>
  C2 (monotonic cursor, halting). The claim says that \<^verbatim>\<open>parse\<close> halts on every token
  sequence. On the tokens of \<^verbatim>\<open>int f(){ ) }\<close> it does not: no amount of fuel lets the run
  return.
\<close>

theorem parse_never_returns:
  "parse n (tokenize ''int f(){ ) }'') current = OutOfFuel"
  by (simp add: parse_def parseProgram_def tokenize_stall stall_program)

text \<open>The cursor can also pass the token count: a type keyword as the last token of a
  parameter list is followed by two increments.\<close>

lemma parse_cursor_overshoot:
  "length (tokenize ''int f(int'') = 4
   \<and> parse (40 + k) (tokenize ''int f(int'') current =
       Ok (Program [ErrorNode ''Unexpected end of input while parsing function parameters''], 5)"
proof
  show "length (tokenize ''int f(int'') = 4" by code_simp
next
  have "parse 40 (tokenize ''int f(int'') 0 =
       Ok (Program [ErrorNode ''Unexpected end of input while parsing function parameters''], 5)"
    by code_simp
  then show "parse (40 + k) (tokenize ''int f(int'') current =
       Ok (Program [ErrorNode ''Unexpected end of input while parsing function parameters''], 5)"
    by (rule parse_enough_fuel)
qed

subsection \<open>Precedence and associativity\<close>

text \<open>The precedence table of the specification: each binary operator with the rank of its
  level, a higher rank binding tighter. Assignment lies below all of them, the prefix and
  postfix operators above.\<close>

definition binaryOperators :: "(string \<times> nat) list" where
  "binaryOperators =
     [(''=='', 1), (''!='', 1), (''<'', 2), (''>'', 2), (''<='', 2), (''>='', 2),
      (''+'', 3), (''-'', 3), (''*'', 4), (''/'', 4), (''%'', 4)]"

definition operand :: "string \<Rightarrow> token" where
  "operand x = Token IDENTIFIER x"

definition operator :: "string \<Rightarrow> token" where
  "operator x = Token OPERATOR x"

definition level :: "string \<Rightarrow> nat" where
  "level x = (case map_of binaryOperators x of Some l \<Rightarrow> l | None \<Rightarrow> 0)"

definition binaryNames :: "string list" where
  "binaryNames = map fst binaryOperators"

definition stepNames :: "string list" where
  "stepNames = [''++'', ''--'']"

lemma binary_levels_30:
  "\<forall>o1 \<in> set binaryNames. \<forall>o2 \<in> set binaryNames.
     parseExpression 30
       [operand ''a'', operator o1, operand ''b'', operator o2, operand ''c''] 0
     = Ok (if level o1 < level o2 then
             BinaryExpression o1 (Identifier ''a'')
               (BinaryExpression o2 (Identifier ''b'') (Identifier ''c''))
           else
             BinaryExpression o2
               (BinaryExpression o1 (Identifier ''a'') (Identifier ''b'')) (Identifier ''c''),
           5)"
  by code_simp

lemma assignment_30_1:
  "parseExpression 30
     [operand ''a'', operator ''='', operand ''b'', operator ''='', operand ''c''] 0
   = Ok (AssignmentExpression ''='' (Identifier ''a'')
           (AssignmentExpression ''='' (Identifier ''b'') (Identifier ''c'')), 5)"
  by code_simp

lemma assignment_30_2:
  "\<forall>o1 \<in> set binaryNames.
        parseExpression 30
          [operand ''a'', operator ''='', operand ''b'', operator o1, operand ''c''] 0
        = Ok (AssignmentExpression ''='' (Identifier ''a'')
                (BinaryExpression o1 (Identifier ''b'') (Identifier ''c'')), 5)"
  by code_simp

lemma assignment_30_3:
  "\<forall>o1 \<in> set binaryNames.
      parseExpression 30
          [operand ''a'', operator o1, operand ''b'', operator ''='', operand ''c''] 0
        = Ok (AssignmentExpression ''=''
                (BinaryExpression o1 (Identifier ''a'') (Identifier ''b''))
                (Identifier ''c''), 5)"
  by code_simp

lemma unary_30:
  "\<forall>o1 \<in> set binaryNames. \<forall>u \<in> set stepNames. \<forall>v \<in> set stepNames.
     parseExpression 30
       [operator u, operand ''a'', operator v, operator o1,
        operator u, operand ''b'', operator v] 0
     = Ok (BinaryExpression o1
             (PrefixExpression u (PostfixExpression v (Identifier ''a'')))
             (PrefixExpression u (PostfixExpression v (Identifier ''b''))), 7)"
  by code_simp

text \<open>
  C8 (precedence chain). On token sequences the expression parser follows the stated order.
  For operands \<^verbatim>\<open>a\<close>, \<^verbatim>\<open>b\<close>, \<^verbatim>\<open>c\<close> and every pair of binary operators, \<^verbatim>\<open>a o1 b o2 c\<close> groups to
  the right exactly when \<^verbatim>\<open>o2\<close> is of a higher level than \<^verbatim>\<open>o1\<close>, and to the left otherwise:
  levels are ordered Equality, Relational, Additive, Multiplicative, and each level is
  left-associative. Assignment is right-associative and binds weaker than every binary
  operator. Prefix and postfix \<^verbatim>\<open>++\<close>/\<^verbatim>\<open>--\<close> bind tighter than every binary operator, and a
  postfix operator tighter than a prefix one.
\<close>

theorem expression_precedence:
  "(\<forall>o1 \<in> set binaryNames. \<forall>o2 \<in> set binaryNames.
     parseExpression (30 + k)
       [operand ''a'', operator o1, operand ''b'', operator o2, operand ''c''] 0
     = Ok (if level o1 < level o2 then
             BinaryExpression o1 (Identifier ''a'')
               (BinaryExpression o2 (Identifier ''b'') (Identifier ''c''))
           else
             BinaryExpression o2
               (BinaryExpression o1 (Identifier ''a'') (Identifier ''b'')) (Identifier ''c''),
           5))
   \<and> parseExpression (30 + k)
       [operand ''a'', operator ''='', operand ''b'', operator ''='', operand ''c''] 0
     = Ok (AssignmentExpression ''='' (Identifier ''a'')
             (AssignmentExpression ''='' (Identifier ''b'') (Identifier ''c'')), 5)
   \<and> (\<forall>o1 \<in> set binaryNames.
        parseExpression (30 + k)
          [operand ''a'', operator ''='', operand ''b'', operator o1, operand ''c''] 0
        = Ok (AssignmentExpression ''='' (Identifier ''a'')
                (BinaryExpression o1 (Identifier ''b'') (Identifier ''c'')), 5))
   \<and> (\<forall>o1 \<in> set binaryNames.
        parseExpression (30 + k)
          [operand ''a'', operator o1, operand ''b'', operator ''='', operand ''c''] 0
        = Ok (AssignmentExpression ''=''
                (BinaryExpression o1 (Identifier ''a'') (Identifier ''b''))
                (Identifier ''c''), 5))
   \<and> (\<forall>o1 \<in> set binaryNames. \<forall>u \<in> set stepNames. \<forall>v \<in> set stepNames.
        parseExpression (30 + k)
          [operator u, operand ''a'', operator v, operator o1,
           operator u, operand ''b'', operator v] 0
        = Ok (BinaryExpression o1
                (PrefixExpression u (PostfixExpression v (Identifier ''a'')))
                (PrefixExpression u (PostfixExpression v (Identifier ''b''))), 7))"
  by (intro conjI ballI parseExpression_enough_fuel)
     (assumption | rule binary_levels_30[rule_format] assignment_30_1
        assignment_30_2[rule_format] assignment_30_3[rule_format] unary_30[rule_format])+

theorem expression_precedence_witness:
  "''-'' \<in> set binaryNames
   \<and> parseExpression 30
       [operand ''a'', operator ''-'', operand ''b'', operator ''-'', operand ''c''] 0
     = Ok (BinaryExpression ''-''
             (BinaryExpression ''-'' (Identifier ''a'') (Identifier ''b'')) (Identifier ''c''), 5)"
proof -
  have m: "''-'' \<in> set binaryNames" by (simp add: binaryNames_def binaryOperators_def)
  from expression_precedence[of 0, THEN conjunct1, rule_format, OF m m] m show ?thesis
    by (simp add: level_def)
qed



end
